theory Spec2Isabelle
  imports Complex_Main "HOL-Library.AList" "HOL-Library.Multiset"
begin

section \<open>Python values, errors and strings\<close>

text \<open>
  Values that cross the boundaries of the modelled code (metadata returned by the vector
  store, the unpickled content of a cache file) are dynamically typed in the source, so
  they are a datatype here. A \<open>dict\<close> with string keys is an association list read with
  \<open>map_of\<close>. Python floats are modelled as reals: rounding is not part of the model.
  A \<open>str\<close> is a \<open>string\<close>, one \<open>char\<close> per code point, so only code points below 256
  exist in the model.
\<close>

datatype pyval =
    PyNone
  | PyBool bool
  | PyInt int
  | PyFloat real
  | PyStr string
  | PyList "pyval list"
  | PyDict "(string \<times> pyval) list"

type_synonym pydict = "(string \<times> pyval) list"

text \<open>Truth value testing (\<open>if x:\<close>, \<open>x and y\<close>, \<open>x or y\<close>).\<close>

fun truthy :: "pyval \<Rightarrow> bool" where
  "truthy PyNone = False"
| "truthy (PyBool b) = b"
| "truthy (PyInt n) = (n \<noteq> 0)"
| "truthy (PyFloat x) = (x \<noteq> 0)"
| "truthy (PyStr s) = (s \<noteq> [])"
| "truthy (PyList xs) = (xs \<noteq> [])"
| "truthy (PyDict d) = (d \<noteq> [])"

text \<open>\<open>d.get(k)\<close>: the value, or \<open>None\<close> when the key is missing.\<close>

definition dict_get :: "pydict \<Rightarrow> string \<Rightarrow> pyval" where
  "dict_get d k = (case map_of d k of None \<Rightarrow> PyNone | Some v \<Rightarrow> v)"

text \<open>
  Exceptions are values. \<open>ValidationError\<close> carries \<open>field_name\<close> and \<open>field_value\<close>,
  the other exceptions of the repository their \<open>error_code\<close>; the rest are the built-in
  exceptions the modelled code can meet.
\<close>

datatype error =
    ValidationError string pyval
  | CacheError string
  | ScorpiusError string
  | OpenAIError string
  | ChromaDBError string
  | ValueError
  | KeyError
  | IndexError
  | TypeError
  | AttributeError
  | OSError
  | UnpicklingError

text \<open>\<open>isinstance(e, ScorpiusError)\<close>: the repository's exception classes all derive from it.\<close>

fun is_ScorpiusError :: "error \<Rightarrow> bool" where
  "is_ScorpiusError (ValidationError f v) = True"
| "is_ScorpiusError (CacheError c) = True"
| "is_ScorpiusError (ScorpiusError c) = True"
| "is_ScorpiusError (OpenAIError c) = True"
| "is_ScorpiusError (ChromaDBError c) = True"
| "is_ScorpiusError e = False"

text \<open>\<open>xs[i]\<close> raises \<open>IndexError\<close> out of range.\<close>

definition py_index :: "'a list \<Rightarrow> nat \<Rightarrow> error + 'a" where
  "py_index xs i = (if i < length xs then Inr (xs ! i) else Inl IndexError)"

text \<open>\<open>xs[:n]\<close>: a negative bound counts from the end.\<close>

definition py_slice_to :: "'a list \<Rightarrow> int \<Rightarrow> 'a list" where
  "py_slice_to xs n = (if 0 \<le> n then take (nat n) xs else take (length xs - nat (- n)) xs)"

text \<open>\<open>str.isspace\<close> on the code points below 256.\<close>

definition py_isspace :: "char \<Rightarrow> bool" where
  "py_isspace c =
     (let n = (of_char c :: nat)
      in (9 \<le> n \<and> n \<le> 13) \<or> (28 \<le> n \<and> n \<le> 32) \<or> n = 133 \<or> n = 160)"

definition py_strip :: "string \<Rightarrow> string" where
  "py_strip s = rev (dropWhile py_isspace (rev (dropWhile py_isspace s)))"

text \<open>\<open>s.split()\<close>: the maximal runs of non-whitespace characters.\<close>

fun split_ws :: "string \<Rightarrow> string \<Rightarrow> string list" where
  "split_ws [] w = (if w = [] then [] else [w])"
| "split_ws (c # cs) w =
     (if py_isspace c then (if w = [] then split_ws cs [] else w # split_ws cs [])
      else split_ws cs (w @ [c]))"

definition py_split :: "string \<Rightarrow> string list" where
  "py_split s = split_ws s []"

fun py_join :: "string \<Rightarrow> string list \<Rightarrow> string" where
  "py_join sep [] = []"
| "py_join sep [x] = x"
| "py_join sep (x # y # ys) = x @ sep @ py_join sep (y # ys)"

text \<open>\<open>str.lower\<close> on the code points below 256 (A-Z and the accented capitals).\<close>

definition py_lower_char :: "char \<Rightarrow> char" where
  "py_lower_char c =
     (let n = (of_char c :: nat)
      in if (65 \<le> n \<and> n \<le> 90) \<or> (192 \<le> n \<and> n \<le> 214) \<or> (216 \<le> n \<and> n \<le> 222)
         then char_of (n + 32) else c)"

definition py_lower :: "string \<Rightarrow> string" where
  "py_lower s = map py_lower_char s"

text \<open>\<open>sub in s\<close> for strings: \<open>sub\<close> occurs as a contiguous run of \<open>s\<close>.\<close>

fun str_contains :: "string \<Rightarrow> string \<Rightarrow> bool" where
  "str_contains sub [] = (sub = [])"
| "str_contains sub (c # cs) = (take (length sub) (c # cs) = sub \<or> str_contains sub cs)"

section \<open>models/ao\_context.py\<close>

datatype AOType =
  MAPA | OUVERT | RESTREINT | DIALOGUE_COMPETITIF | PARTENARIAT_INNOVATION | CONCOURS

datatype Sector =
  ETAT | TERRITORIAL | HOSPITALIER | EDUCATION | EPA_EPIC | DEFENSE

datatype TechnicalDomain =
  DEVELOPPEMENT | INFRA_CLOUD | CYBERSECURITE | DATA_IA | CONSEIL | INTEGRATION | SUPPORT

text \<open>The \<open>.value\<close> of each enum member; \<open>CHR 0xE9\<close> is e-acute, \<open>CHR 0xC9\<close> its capital.\<close>

fun AOType_value :: "AOType \<Rightarrow> string" where
  "AOType_value MAPA = ''MAPA''"
| "AOType_value OUVERT = ''Ouvert''"
| "AOType_value RESTREINT = ''Restreint''"
| "AOType_value DIALOGUE_COMPETITIF = ''Dialogue comp'' @ [CHR 0xE9] @ ''titif''"
| "AOType_value PARTENARIAT_INNOVATION = ''Partenariat d'' @ [CHR 0x27] @ ''innovation''"
| "AOType_value CONCOURS = ''Concours''"

fun Sector_value :: "Sector \<Rightarrow> string" where
  "Sector_value ETAT = [CHR 0xC9] @ ''tat''"
| "Sector_value TERRITORIAL = ''Territorial''"
| "Sector_value HOSPITALIER = ''Hospitalier''"
| "Sector_value EDUCATION = [CHR 0xC9] @ ''ducation''"
| "Sector_value EPA_EPIC = ''EPA/EPIC''"
| "Sector_value DEFENSE = ''D'' @ [CHR 0xE9] @ ''fense''"

fun TechnicalDomain_value :: "TechnicalDomain \<Rightarrow> string" where
  "TechnicalDomain_value DEVELOPPEMENT = ''D'' @ [CHR 0xE9] @ ''veloppement''"
| "TechnicalDomain_value INFRA_CLOUD = ''Infrastructure/Cloud''"
| "TechnicalDomain_value CYBERSECURITE = ''Cybers'' @ [CHR 0xE9] @ ''curit'' @ [CHR 0xE9]"
| "TechnicalDomain_value DATA_IA = ''Data/IA''"
| "TechnicalDomain_value CONSEIL = ''Conseil''"
| "TechnicalDomain_value INTEGRATION = ''Int'' @ [CHR 0xE9] @ ''gration''"
| "TechnicalDomain_value SUPPORT = ''Support/Maintenance''"

text \<open>
  The fields of \<open>AOContext\<close> that the search path reads. \<open>ao_type\<close> and \<open>sector\<close> are
  required enum members (always truthy); \<open>technical_domains\<close> is a list after
  \<open>__post_init__\<close>.
\<close>

record AOContext =
  ao_type :: AOType
  sector :: Sector
  estimated_amount :: "int option"
  technical_domains :: "TechnicalDomain list"
  organisme :: "string option"

definition get_amount_range :: "AOContext \<Rightarrow> string" where
  "get_amount_range c =
     (case estimated_amount c of
        None \<Rightarrow> ''Non sp'' @ [CHR 0xE9] @ ''cifi'' @ [CHR 0xE9]
      | Some amount \<Rightarrow>
          if amount < 25000 then ''0-25k''
          else if amount < 100000 then ''25k-100k''
          else if amount < 500000 then ''100k-500k''
          else if amount < 1000000 then ''500k-1M''
          else if amount < 5000000 then ''1M-5M''
          else ''5M+'')"

text \<open>Truthiness of \<open>estimated_amount\<close>: \<open>None\<close> and \<open>0\<close> are falsy.\<close>

definition amount_truthy :: "AOContext \<Rightarrow> bool" where
  "amount_truthy c = (case estimated_amount c of None \<Rightarrow> False | Some a \<Rightarrow> a \<noteq> 0)"

section \<open>models/search\_result.py\<close>

record SearchResult =
  content :: string
  metadata :: pydict
  similarity_score :: real
  collection :: string
  result_ao_type :: pyval
  result_sector :: pyval
  amount_range :: pyval
  relevance_score :: "real option"

text \<open>The constructor with \<open>__post_init__\<close>: both scores must lie in \<open>[0.0, 1.0]\<close>.\<close>

definition make_SearchResult ::
  "string \<Rightarrow> pydict \<Rightarrow> real \<Rightarrow> string \<Rightarrow> pyval \<Rightarrow> pyval \<Rightarrow> pyval \<Rightarrow> real option
     \<Rightarrow> error + SearchResult" where
  "make_SearchResult doc md sim coll ty sec rng rel =
     (if \<not> (0 \<le> sim \<and> sim \<le> 1) then Inl ValueError
      else if (case rel of None \<Rightarrow> False | Some r \<Rightarrow> \<not> (0 \<le> r \<and> r \<le> 1)) then Inl ValueError
      else Inr \<lparr> content = doc, metadata = md, similarity_score = sim, collection = coll,
                 result_ao_type = ty, result_sector = sec, amount_range = rng,
                 relevance_score = rel \<rparr>)"

section \<open>core/scorpius\_rag\_engine.py: scoring and post-processing\<close>

definition org_types :: "string list" where
  "org_types =
     [''r'' @ [CHR 0xE9] @ ''gion'', ''d'' @ [CHR 0xE9] @ ''partement'',
      ''minist'' @ [CHR 0xE8] @ ''re'', ''chu'', ''universit'' @ [CHR 0xE9]]"

text \<open>
  The loop over \<open>org_types\<close> of \<open>_calculate_contextual_relevance\<close>: the first keyword
  found in both names adds 0.05 and leaves the loop (\<open>break\<close>).
\<close>

fun org_type_loop :: "string list \<Rightarrow> string \<Rightarrow> string \<Rightarrow> real \<Rightarrow> real" where
  "org_type_loop [] context_org meta_org relevance_bonus = relevance_bonus"
| "org_type_loop (org_type # rest) context_org meta_org relevance_bonus =
     (if str_contains org_type context_org \<and> str_contains org_type meta_org
      then relevance_bonus + 0.05
      else org_type_loop rest context_org meta_org relevance_bonus)"

text \<open>
  \<open>_calculate_contextual_relevance\<close>. \<open>metadata.get("organisme", "").lower()\<close> raises
  \<open>AttributeError\<close> when the stored value is truthy and not a string.
\<close>

definition calculate_contextual_relevance ::
  "pydict \<Rightarrow> AOContext option \<Rightarrow> real \<Rightarrow> error + real" where
  "calculate_contextual_relevance md context base_similarity =
     (case context of
        None \<Rightarrow> Inr base_similarity
      | Some ctx \<Rightarrow>
          let b0 = (0 :: real);
              b1 = (if dict_get md ''secteur'' = PyStr (Sector_value (sector ctx))
                    then b0 + 0.1 else b0);
              b2 = (if dict_get md ''type_ao'' = PyStr (AOType_value (ao_type ctx))
                    then b1 + 0.1 else b1);
              b3 = (if amount_truthy ctx \<and> truthy (dict_get md ''fourchette_montant'')
                    then (if dict_get md ''fourchette_montant'' = PyStr (get_amount_range ctx)
                          then b2 + 0.08 else b2)
                    else b2)
          in (case organisme ctx of
                None \<Rightarrow> Inr (min 1 (base_similarity + b3))
              | Some org \<Rightarrow>
                  if org \<noteq> [] \<and> truthy (dict_get md ''organisme'')
                  then (case dict_get md ''organisme'' of
                          PyStr meta \<Rightarrow>
                            Inr (min 1 (base_similarity +
                                   org_type_loop org_types (py_lower org) (py_lower meta) b3))
                        | _ \<Rightarrow> Inl AttributeError)
                  else Inr (min 1 (base_similarity + b3))))"

text \<open>The line \<open>similarity_score = max(0.0, 1.0 - distance)\<close> of \<open>_process_search_results\<close>.\<close>

definition distance_to_similarity :: "real \<Rightarrow> real" where
  "distance_to_similarity distance = max 0 (1 - distance)"

text \<open>
  The raw answer of the vector store: parallel lists, one inner list per query.
  \<open>documents = []\<close> also stands for a missing or \<open>None\<close> entry
  (\<open>not raw_results.get("documents")\<close>); a metadata entry may be \<open>None\<close>. A
  missing \<open>metadatas\<close> or \<open>distances\<close> entry is the empty list, and reading it
  raises.
\<close>

record raw_results =
  documents :: "string list list"
  metadatas :: "pydict option list list"
  distances :: "real list list"

text \<open>One pass of the loop body for neighbour \<open>i\<close>; \<open>None\<close> is the \<open>continue\<close>.\<close>

definition process_neighbor ::
  "raw_results \<Rightarrow> string \<Rightarrow> real \<Rightarrow> AOContext option \<Rightarrow> nat \<Rightarrow> error + SearchResult option" where
  "process_neighbor raw coll min_similarity_score context i =
     (case py_index (documents raw) 0 of Inl e \<Rightarrow> Inl e | Inr docs \<Rightarrow>
      case py_index docs i of Inl e \<Rightarrow> Inl e | Inr document \<Rightarrow>
      case py_index (metadatas raw) 0 of Inl e \<Rightarrow> Inl e | Inr mds \<Rightarrow>
      case py_index mds i of Inl e \<Rightarrow> Inl e | Inr md_opt \<Rightarrow>
      case py_index (distances raw) 0 of Inl e \<Rightarrow> Inl e | Inr ds \<Rightarrow>
      case py_index ds i of Inl e \<Rightarrow> Inl e | Inr distance \<Rightarrow>
        let md = (case md_opt of None \<Rightarrow> [] | Some m \<Rightarrow> m);
            sim = distance_to_similarity distance
        in if sim < min_similarity_score then Inr None
           else (case calculate_contextual_relevance md context sim of
                   Inl e \<Rightarrow> Inl e
                 | Inr relevance \<Rightarrow>
                     (case make_SearchResult document md sim coll (dict_get md ''type_ao'')
                             (dict_get md ''secteur'') (dict_get md ''fourchette_montant'')
                             (Some relevance) of
                        Inl e \<Rightarrow> Inl e
                      | Inr result \<Rightarrow> Inr (Some result))))"

fun process_loop ::
  "raw_results \<Rightarrow> string \<Rightarrow> real \<Rightarrow> AOContext option \<Rightarrow> nat list \<Rightarrow> SearchResult list
     \<Rightarrow> error + SearchResult list" where
  "process_loop raw coll ms context [] processed_results = Inr processed_results"
| "process_loop raw coll ms context (i # rest) processed_results =
     (case process_neighbor raw coll ms context i of
        Inl e \<Rightarrow> Inl e
      | Inr None \<Rightarrow> process_loop raw coll ms context rest processed_results
      | Inr (Some result) \<Rightarrow>
          process_loop raw coll ms context rest (processed_results @ [result]))"

text \<open>The sort key \<open>r.relevance_score or r.similarity_score\<close>.\<close>

definition result_sort_key :: "SearchResult \<Rightarrow> real" where
  "result_sort_key r =
     (case relevance_score r of
        None \<Rightarrow> similarity_score r
      | Some v \<Rightarrow> if v \<noteq> 0 then v else similarity_score r)"

text \<open>
  \<open>_process_search_results\<close>. \<open>list.sort(key=..., reverse=True)\<close> is a stable sort in
  descending key order, here the stable insertion sort on the negated key.
\<close>

definition process_search_results ::
  "raw_results \<Rightarrow> string \<Rightarrow> real \<Rightarrow> AOContext option \<Rightarrow> int \<Rightarrow> error + SearchResult list" where
  "process_search_results raw coll min_similarity_score context limit =
     (if documents raw = [] \<or> hd (documents raw) = [] then Inr []
      else (case process_loop raw coll min_similarity_score context
                   [0 ..< length (hd (documents raw))] [] of
              Inl e \<Rightarrow> Inl e
            | Inr processed_results \<Rightarrow>
                Inr (py_slice_to (sort_key (\<lambda>r. - result_sort_key r) processed_results) limit)))"

section \<open>core/scorpius\_rag\_engine.py: search\<close>

definition enrich_query_with_context :: "string \<Rightarrow> AOContext option \<Rightarrow> string" where
  "enrich_query_with_context query context =
     (case context of
        None \<Rightarrow> query
      | Some ctx \<Rightarrow>
          py_join '' - ''
            ([query,
              ''appel offres '' @ AOType_value (ao_type ctx),
              ''secteur '' @ Sector_value (sector ctx)]
             @ (if amount_truthy ctx then [''montant '' @ get_amount_range ctx] else [])
             @ (if technical_domains ctx \<noteq> []
                then [''technologies '' @
                        py_join '' '' (map TechnicalDomain_value (technical_domains ctx))]
                else [])
             @ (case organisme ctx of
                  None \<Rightarrow> []
                | Some org \<Rightarrow> if org \<noteq> [] then [''organisme '' @ org] else [])))"

text \<open>\<open>_build_metadata_filters\<close>; \<open>filters.update\<close> lets the caller's keys win.\<close>

definition build_metadata_filters :: "AOContext option \<Rightarrow> pydict option \<Rightarrow> pydict option" where
  "build_metadata_filters context additional_filters =
     (let f0 = (case context of
                  None \<Rightarrow> []
                | Some ctx \<Rightarrow>
                    let f1 = AList.update ''secteur'' (PyStr (Sector_value (sector ctx))) [];
                        f2 = AList.update ''type_ao'' (PyStr (AOType_value (ao_type ctx))) f1;
                        f3 = (if amount_truthy ctx
                              then AList.update ''fourchette_montant''
                                     (PyStr (get_amount_range ctx)) f2
                              else f2)
                    in if technical_domains ctx \<noteq> []
                       then AList.update ''domaine_technique''
                              (PyDict [(''$in'',
                                 PyList (map (\<lambda>d. PyStr (TechnicalDomain_value d))
                                           (technical_domains ctx)))]) f3
                       else f3);
          filters = (case additional_filters of
                       None \<Rightarrow> f0
                     | Some extra \<Rightarrow> AList.updates (map fst extra) (map snd extra) f0)
      in if filters \<noteq> [] then Some filters else None)"

text \<open>
  The collaborators of the engine are outside the modelled code: the embedding service,
  the vector store and its collections. Each is a function on the state \<open>'w\<close> of the
  outside world that either fails or answers; \<open>'h\<close> is a collection handle.
\<close>

record ('w, 'h) collaborators =
  service_embed :: "string \<Rightarrow> 'w \<Rightarrow> (error + pyval list) \<times> 'w"
  get_or_create_collection :: "string \<Rightarrow> 'w \<Rightarrow> (error + 'h) \<times> 'w"
  collection_query :: "'h \<Rightarrow> pyval list \<Rightarrow> int \<Rightarrow> pydict option \<Rightarrow> 'w \<Rightarrow> (error + raw_results) \<times> 'w"
  service_performance_stats :: "'w \<Rightarrow> real \<times> real"

text \<open>The counters of \<open>self._stats\<close> that \<open>search\<close> writes, and the engine around them.\<close>

record engine_stats =
  total_searches :: nat
  avg_search_time_ms :: real
  cache_hit_rate :: real
  total_cost_usd :: real

record 'w engine =
  stats :: engine_stats
  world :: 'w

definition update_search_stats ::
  "('w, 'h) collaborators \<Rightarrow> real \<Rightarrow> nat \<Rightarrow> 'w engine \<Rightarrow> 'w engine" where
  "update_search_stats co duration_ms results_count eng =
     (let n = total_searches (stats eng) + 1;
          prev_avg = avg_search_time_ms (stats eng);
          (hit_rate, cost) = service_performance_stats co (world eng)
      in eng \<lparr> stats := \<lparr> total_searches = n,
                          avg_search_time_ms = (prev_avg * (real n - 1) + duration_ms) / real n,
                          cache_hit_rate = hit_rate,
                          total_cost_usd = cost \<rparr> \<rparr>)"

text \<open>The three parameter checks at the head of \<open>search\<close>, in the order of the source.\<close>

definition search_validation :: "string \<Rightarrow> int \<Rightarrow> real \<Rightarrow> error option" where
  "search_validation query limit min_similarity_score =
     (if query = [] \<or> py_strip query = []
      then Some (ValidationError ''query'' (PyStr query))
      else if limit \<le> 0 \<or> limit > 100
      then Some (ValidationError ''limit'' (PyInt limit))
      else if \<not> (0 \<le> min_similarity_score \<and> min_similarity_score \<le> 1)
      then Some (ValidationError ''min_similarity_score'' (PyFloat min_similarity_score))
      else None)"

text \<open>
  The body of the \<open>try\<close> block of \<open>search\<close>: the first failing step ends it, with the
  engine as that step left it. \<open>duration_ms\<close> is the elapsed time the source measures.
\<close>

definition search_body ::
  "('w, 'h) collaborators \<Rightarrow> real \<Rightarrow> string \<Rightarrow> string \<Rightarrow> int \<Rightarrow> AOContext option
     \<Rightarrow> pydict option \<Rightarrow> real \<Rightarrow> 'w engine \<Rightarrow> (error + SearchResult list) \<times> 'w engine" where
  "search_body co duration_ms query coll limit context filters min_similarity_score eng =
     (let enriched_query = enrich_query_with_context query context
      in case service_embed co enriched_query (world eng) of
           (Inl e, w1) \<Rightarrow> (Inl e, eng \<lparr> world := w1 \<rparr>)
         | (Inr query_embedding, w1) \<Rightarrow>
      (case get_or_create_collection co coll w1 of
           (Inl e, w2) \<Rightarrow> (Inl e, eng \<lparr> world := w2 \<rparr>)
         | (Inr chroma_collection, w2) \<Rightarrow>
      (let combined_filters = build_metadata_filters context filters
       in case collection_query co chroma_collection query_embedding (limit * 2)
                 combined_filters w2 of
           (Inl e, w3) \<Rightarrow> (Inl e, eng \<lparr> world := w3 \<rparr>)
         | (Inr search_results, w3) \<Rightarrow>
      (case process_search_results search_results coll min_similarity_score context limit of
           Inl e \<Rightarrow> (Inl e, eng \<lparr> world := w3 \<rparr>)
         | Inr processed_results \<Rightarrow>
             (Inr processed_results,
              update_search_stats co duration_ms (length processed_results)
                (eng \<lparr> world := w3 \<rparr>))))))"

text \<open>
  \<open>search\<close>: the parameter checks stand before the \<open>try\<close>; the \<open>except Exception\<close>
  handler counts the failed search and wraps an exception that is not a \<open>ScorpiusError\<close>.
\<close>

definition search ::
  "('w, 'h) collaborators \<Rightarrow> real \<Rightarrow> string \<Rightarrow> string \<Rightarrow> int \<Rightarrow> AOContext option
     \<Rightarrow> pydict option \<Rightarrow> real \<Rightarrow> 'w engine \<Rightarrow> (error + SearchResult list) \<times> 'w engine" where
  "search co duration_ms query coll limit context filters min_similarity_score eng =
     (case search_validation query limit min_similarity_score of
        Some e \<Rightarrow> (Inl e, eng)
      | None \<Rightarrow>
          (case search_body co duration_ms query coll limit context filters
                  min_similarity_score eng of
             (Inr results, eng') \<Rightarrow> (Inr results, eng')
           | (Inl e, eng') \<Rightarrow>
               (let eng'' = eng' \<lparr> stats := (stats eng')
                                    \<lparr> total_searches := total_searches (stats eng') + 1 \<rparr> \<rparr>
                in if \<not> is_ScorpiusError e then (Inl (ScorpiusError ''RAG_SEARCH_FAILED''), eng'')
                   else (Inl e, eng''))))"

section \<open>utils/embedding\_cache.py\<close>

text \<open>
  The library functions the cache calls are parameters of the model: the two hex digests,
  the length of a pickle under a protocol (\<open>len(pickle.dumps(obj, protocol))\<close>) and
  \<open>datetime.isoformat\<close>. Time is a number of seconds.
\<close>

datatype pickle_protocol = DEFAULT_PROTOCOL | HIGHEST_PROTOCOL

record pylib =
  sha256_hexdigest :: "string \<Rightarrow> string"
  md5_hexdigest :: "string \<Rightarrow> string"
  pickle_size :: "pickle_protocol \<Rightarrow> pyval \<Rightarrow> nat"
  isoformat :: "real \<Rightarrow> string"

text \<open>
  A cache file: what \<open>pickle.load\<close> reads from it (\<open>None\<close> when reading or
  unpickling the file raises), and the two fields of \<open>stat()\<close> the cache uses.
\<close>

record cache_file =
  file_data :: "pyval option"
  st_mtime :: real
  st_size :: nat

record cache_stats =
  total_requests :: nat
  cache_hits :: nat
  cache_misses :: nat
  cache_errors :: nat
  total_savings_usd :: real
  cache_size_mb :: real

text \<open>
  The cache object with its directory: \<open>files\<close> lists the \<open>*.pkl\<close> files under
  \<open>cache_dir\<close> by their path below it, in the order \<open>rglob\<close> yields them.
\<close>

record EmbeddingCache =
  ttl_hours :: int
  max_cache_size_mb :: int
  compression_enabled :: bool
  cstats :: cache_stats
  files :: "(string \<times> cache_file) list"

definition get_cache_key :: "pylib \<Rightarrow> string \<Rightarrow> string \<Rightarrow> string" where
  "get_cache_key L txt model =
     (let normalized_text = py_join '' '' (py_split txt);
          content = normalized_text @ ''|'' @ model
      in sha256_hexdigest L content)"

definition get_cache_file_path :: "string \<Rightarrow> string" where
  "get_cache_file_path cache_key = take 2 cache_key @ ''/'' @ cache_key @ ''.pkl''"

definition is_cache_entry_valid :: "EmbeddingCache \<Rightarrow> real \<Rightarrow> string \<Rightarrow> bool" where
  "is_cache_entry_valid c now file_path =
     (case map_of (files c) file_path of
        None \<Rightarrow> False
      | Some f \<Rightarrow> now < st_mtime f + real_of_int (ttl_hours c) * 3600)"

text \<open>\<open>isinstance(x, (int, float))\<close>; \<open>bool\<close> is a subclass of \<open>int\<close>.\<close>

fun is_number :: "pyval \<Rightarrow> bool" where
  "is_number (PyInt n) = True"
| "is_number (PyFloat x) = True"
| "is_number (PyBool b) = True"
| "is_number v = False"

text \<open>
  \<open>_validate_cache_data\<close>. On an object that is not a \<open>dict\<close> the membership tests
  fail or the subscript \<open>cache_data["model"]\<close> raises \<open>TypeError\<close>, which the
  function catches: the answer is \<open>False\<close>.
\<close>

definition validate_cache_data :: "pylib \<Rightarrow> pyval \<Rightarrow> string \<Rightarrow> string \<Rightarrow> bool" where
  "validate_cache_data L cache_data txt model =
     (case cache_data of
        PyDict d \<Rightarrow>
          if \<not> list_all (\<lambda>key. map_of d key \<noteq> None)
                 [''text'', ''model'', ''embedding'', ''text_hash'']
          then False
          else if dict_get d ''model'' \<noteq> PyStr model then False
          else if dict_get d ''text_hash'' \<noteq> PyStr (md5_hexdigest L txt) then False
          else (case dict_get d ''embedding'' of
                  PyList embedding \<Rightarrow>
                    if embedding = [] then False
                    else if \<not> list_all is_number embedding then False
                    else True
                | _ \<Rightarrow> False)
      | _ \<Rightarrow> False)"

text \<open>The body of the \<open>try\<close> block of \<open>get\<close>.\<close>

definition get_body ::
  "pylib \<Rightarrow> real \<Rightarrow> string \<Rightarrow> string \<Rightarrow> EmbeddingCache
     \<Rightarrow> (error + pyval list option) \<times> EmbeddingCache" where
  "get_body L now txt model c =
     (let cache_key = get_cache_key L txt model;
          file_path = get_cache_file_path cache_key
      in if \<not> is_cache_entry_valid c now file_path
         then (Inr None, c \<lparr> cstats := (cstats c) \<lparr> cache_misses := cache_misses (cstats c) + 1 \<rparr> \<rparr>)
         else (case map_of (files c) file_path of
                 None \<Rightarrow> (Inl OSError, c)
               | Some f \<Rightarrow>
                   (case file_data f of
                      None \<Rightarrow> (Inl UnpicklingError, c)
                    | Some cache_data \<Rightarrow>
                        if \<not> validate_cache_data L cache_data txt model
                        then (Inr None,
                              c \<lparr> files := AList.delete file_path (files c),
                                  cstats := (cstats c)
                                    \<lparr> cache_misses := cache_misses (cstats c) + 1 \<rparr> \<rparr>)
                        else (case cache_data of
                                PyDict d \<Rightarrow>
                                  (case dict_get d ''embedding'' of
                                     PyList embedding \<Rightarrow>
                                       (let token_estimate = real (length (py_split txt)) * 1.3;
                                            cost_saved = (token_estimate / 1000) * 0.00013
                                        in (Inr (Some embedding),
                                            c \<lparr> cstats := (cstats c)
                                              \<lparr> cache_hits := cache_hits (cstats c) + 1,
                                                total_savings_usd :=
                                                  total_savings_usd (cstats c) + cost_saved \<rparr> \<rparr>))
                                   | _ \<Rightarrow> (Inl TypeError, c))
                              | _ \<Rightarrow> (Inl TypeError, c)))))"

text \<open>
  \<open>get\<close>: the request is counted, then the \<open>try\<close> block runs; \<open>except Exception\<close>
  counts the error and answers \<open>None\<close>.
\<close>

definition EmbeddingCache_get ::
  "pylib \<Rightarrow> real \<Rightarrow> string \<Rightarrow> string \<Rightarrow> EmbeddingCache
     \<Rightarrow> (error + pyval list option) \<times> EmbeddingCache" where
  "EmbeddingCache_get L now txt model c =
     (let c0 = c \<lparr> cstats := (cstats c) \<lparr> total_requests := total_requests (cstats c) + 1 \<rparr> \<rparr>
      in case get_body L now txt model c0 of
           (Inr r, c1) \<Rightarrow> (Inr r, c1)
         | (Inl e, c1) \<Rightarrow>
             (Inr None,
              c1 \<lparr> cstats := (cstats c1) \<lparr> cache_errors := cache_errors (cstats c1) + 1 \<rparr> \<rparr>))"

definition get_cache_size_mb :: "EmbeddingCache \<Rightarrow> real" where
  "get_cache_size_mb c = real (sum_list (map (\<lambda>(p, f). st_size f) (files c))) / 1024 / 1024"

text \<open>The deleting loop of \<open>_cleanup_oldest_entries\<close> over the files sorted by age.\<close>

fun evict_loop ::
  "(string \<times> real \<times> nat) list \<Rightarrow> real \<Rightarrow> real \<Rightarrow> EmbeddingCache \<Rightarrow> EmbeddingCache" where
  "evict_loop [] current_size target_size_mb c = c"
| "evict_loop ((cache_file, mtime, file_size) # rest) current_size target_size_mb c =
     (if current_size \<le> target_size_mb then c
      else evict_loop rest (current_size - real file_size / 1024 / 1024) target_size_mb
             (c \<lparr> files := AList.delete cache_file (files c) \<rparr>))"

text \<open>\<open>_cleanup_oldest_entries\<close>; \<open>list.sort(key=...)\<close> is a stable ascending sort.\<close>

definition cleanup_oldest_entries :: "real \<Rightarrow> EmbeddingCache \<Rightarrow> EmbeddingCache" where
  "cleanup_oldest_entries target_size_mb c =
     (let cache_files = map (\<lambda>(p, f). (p, st_mtime f, st_size f)) (files c);
          sorted_files = sort_key (\<lambda>(p, mtime, sz). mtime) cache_files;
          current_size = real (sum_list (map (\<lambda>(p, mtime, sz). sz) sorted_files)) / 1024 / 1024
      in evict_loop sorted_files current_size target_size_mb c)"

definition cleanup_if_needed :: "EmbeddingCache \<Rightarrow> EmbeddingCache" where
  "cleanup_if_needed c =
     (let current_size = get_cache_size_mb c;
          c1 = c \<lparr> cstats := (cstats c) \<lparr> cache_size_mb := current_size \<rparr> \<rparr>
      in if current_size > real_of_int (max_cache_size_mb c)
         then cleanup_oldest_entries (real_of_int (max_cache_size_mb c) * 0.8) c1
         else c1)"

text \<open>
  The I/O failure a call of \<open>set\<close> may meet: \<open>mkdir\<close> raises, \<open>open\<close> raises, or
  \<open>pickle.dump\<close> raises after \<open>open\<close> has truncated the file. Each is an \<open>OSError\<close>
  that ends the \<open>try\<close> block, so a call meets at most one. \<open>stat\<close> and \<open>unlink\<close> on a
  file that exists do not fail in the model.
\<close>

datatype io_fault = MkdirFails | OpenFails | DumpFails

text \<open>The record \<open>set\<close> pickles, and the file it writes.\<close>

definition cache_entry :: "pylib \<Rightarrow> real \<Rightarrow> string \<Rightarrow> string \<Rightarrow> pyval list \<Rightarrow> pyval" where
  "cache_entry L now txt model embedding =
     PyDict [(''text'', PyStr txt),
             (''model'', PyStr model),
             (''embedding'', PyList embedding),
             (''cached_at'', PyStr (isoformat L now)),
             (''text_hash'', PyStr (md5_hexdigest L txt)),
             (''embedding_dimension'', PyInt (int (length embedding)))]"

definition write_entry ::
  "pylib \<Rightarrow> real \<Rightarrow> string \<Rightarrow> string \<Rightarrow> pyval list \<Rightarrow> EmbeddingCache \<Rightarrow> EmbeddingCache" where
  "write_entry L now txt model embedding c =
     (let file_path = get_cache_file_path (get_cache_key L txt model);
          cache_data = cache_entry L now txt model embedding;
          protocol = (if compression_enabled c then HIGHEST_PROTOCOL else DEFAULT_PROTOCOL)
      in c \<lparr> files := AList.update file_path
                \<lparr> file_data = Some cache_data, st_mtime = now,
                  st_size = pickle_size L protocol cache_data \<rparr> (files c) \<rparr>)"

definition truncated_file :: "real \<Rightarrow> cache_file" where
  "truncated_file now = \<lparr> file_data = None, st_mtime = now, st_size = 0 \<rparr>"

text \<open>The body of the \<open>try\<close> block of \<open>set\<close>.\<close>

definition set_body ::
  "pylib \<Rightarrow> io_fault option \<Rightarrow> real \<Rightarrow> string \<Rightarrow> string \<Rightarrow> pyval list \<Rightarrow> EmbeddingCache
     \<Rightarrow> (error + unit) \<times> EmbeddingCache" where
  "set_body L fault now txt model embedding c =
     (let cache_key = get_cache_key L txt model;
          file_path = get_cache_file_path cache_key
      in if fault = Some MkdirFails then (Inl OSError, c)
         else (let embedding_size = pickle_size L DEFAULT_PROTOCOL (PyList embedding)
               in if embedding_size > 10 * 1024 * 1024
                  then (Inl (CacheError ''CACHE_SIZE_LIMIT_EXCEEDED''), c)
                  else if fault = Some OpenFails then (Inl OSError, c)
                  else if fault = Some DumpFails
                  then (Inl OSError,
                        c \<lparr> files := AList.update file_path (truncated_file now) (files c) \<rparr>)
                  else (Inr (), cleanup_if_needed (write_entry L now txt model embedding c))))"

text \<open>
  \<open>set\<close>: \<open>except Exception\<close> counts the error and re-raises it only when it is a
  \<open>CacheError\<close>.
\<close>

definition EmbeddingCache_set ::
  "pylib \<Rightarrow> io_fault option \<Rightarrow> real \<Rightarrow> string \<Rightarrow> string \<Rightarrow> pyval list \<Rightarrow> EmbeddingCache
     \<Rightarrow> (error + unit) \<times> EmbeddingCache" where
  "EmbeddingCache_set L fault now txt model embedding c =
     (case set_body L fault now txt model embedding c of
        (Inr u, c1) \<Rightarrow> (Inr (), c1)
      | (Inl e, c1) \<Rightarrow>
          (let c2 = c1 \<lparr> cstats := (cstats c1)
                          \<lparr> cache_errors := cache_errors (cstats c1) + 1 \<rparr> \<rparr>
           in case e of CacheError code \<Rightarrow> (Inl e, c2) | _ \<Rightarrow> (Inr (), c2)))"

section \<open>services/openai\_embedding\_service.py\<close>












section \<open>Specification-side definitions\<close>







text \<open>
  A search result stems from neighbour \<open>i\<close> of the first query: its content is document
  \<open>i\<close> and its similarity is computed from distance \<open>i\<close>.
\<close>

definition from_neighbor :: "raw_results \<Rightarrow> SearchResult \<Rightarrow> nat \<Rightarrow> bool" where
  "from_neighbor raw r i =
     (i < length (hd (documents raw)) \<and> distances raw \<noteq> [] \<and> i < length (hd (distances raw)) \<and>
      content r = hd (documents raw) ! i \<and>
      similarity_score r = distance_to_similarity (hd (distances raw) ! i))"

text \<open>The file that holds the entry of a text under a model.\<close>

definition entry_path :: "pylib \<Rightarrow> string \<Rightarrow> string \<Rightarrow> string" where
  "entry_path L txt model = get_cache_file_path (get_cache_key L txt model)"



text \<open>The text as the cache key sees it: whitespace runs collapsed to single spaces.\<close>

definition normalized_text :: "string \<Rightarrow> string" where
  "normalized_text txt = py_join '' '' (py_split txt)"


text \<open>
  What the cache answers for the texts of one \<open>embed\<close> call, looked up in order, each
  lookup on the cache as the one before left it: the vector of a hit, nothing for a miss.
\<close>

fun cache_answers ::
  "pylib \<Rightarrow> real \<Rightarrow> string \<Rightarrow> string list \<Rightarrow> EmbeddingCache \<Rightarrow> pyval list option list" where
  "cache_answers L now model [] c = []"
| "cache_answers L now model (t # ts) c =
     (case EmbeddingCache_get L now t model c of
        (r, c1) \<Rightarrow>
          (case r of Inr (Some (x # xs)) \<Rightarrow> Some (x # xs) | _ \<Rightarrow> None)
            # cache_answers L now model ts c1)"







section \<open>Concrete inputs\<close>

text \<open>Collaborators that answer at once with nothing, and an engine that has not searched.\<close>

definition idle_collaborators :: "(unit, unit) collaborators" where
  "idle_collaborators =
     \<lparr> service_embed = (\<lambda>q w. (Inr [], w)),
       get_or_create_collection = (\<lambda>name w. (Inr (), w)),
       collection_query =
         (\<lambda>h v n f w. (Inr \<lparr> documents = [], metadatas = [], distances = [] \<rparr>, w)),
       service_performance_stats = (\<lambda>w. (0, 0)) \<rparr>"


definition fresh_engine :: "unit engine" where
  "fresh_engine =
     \<lparr> stats = \<lparr> total_searches = 0, avg_search_time_ms = 0, cache_hit_rate = 0,
                 total_cost_usd = 0 \<rparr>,
       world = () \<rparr>"

text \<open>Three neighbours at distances 0.1, 0.3 and 0.6.\<close>

definition three_neighbors :: raw_results where
  "three_neighbors =
     \<lparr> documents = [[''a'', ''b'', ''c'']],
       metadatas = [[None, Some [], None]],
       distances = [[0.1, 0.3, 0.6]] \<rparr>"



text \<open>
  Library functions for concrete runs: the digests are the identity, and a pickle takes
  nine bytes for each number of the embedding it holds, plus a few bytes around them.
\<close>

definition demo_lib :: pylib where
  "demo_lib =
     \<lparr> sha256_hexdigest = (\<lambda>s. s),
       md5_hexdigest = (\<lambda>s. s),
       pickle_size =
         (\<lambda>p v. case v of
                  PyList xs \<Rightarrow> 9 * length xs + 20
                | PyDict d \<Rightarrow>
                    (case dict_get d ''embedding'' of
                       PyList xs \<Rightarrow> 9 * length xs + 200
                     | _ \<Rightarrow> 200)
                | _ \<Rightarrow> 20),
       isoformat = (\<lambda>t. ''2024-01-15T10:00:00'') \<rparr>"

definition zero_stats :: cache_stats where
  "zero_stats =
     \<lparr> total_requests = 0, cache_hits = 0, cache_misses = 0, cache_errors = 0,
       total_savings_usd = 0, cache_size_mb = 0 \<rparr>"

text \<open>An empty cache of 24 hours and 500 MB, and one of 1 MB.\<close>

definition empty_cache :: EmbeddingCache where
  "empty_cache =
     \<lparr> ttl_hours = 24, max_cache_size_mb = 500, compression_enabled = True,
       cstats = zero_stats, files = [] \<rparr>"



text \<open>A cache of 4 MB that holds two files of 2 MiB, written at times 1 and 2.\<close>

definition full_cache :: EmbeddingCache where
  "full_cache =
     empty_cache \<lparr> max_cache_size_mb := 4,
       files := [(''ol/older.pkl'', \<lparr> file_data = None, st_mtime = 1, st_size = 2097152 \<rparr>),
                 (''yo/younger.pkl'', \<lparr> file_data = None, st_mtime = 2, st_size = 2097152 \<rparr>)] \<rparr>"








section \<open>Verification: scoring and filtering\<close>

lemma make_SearchResult_fields:
  "make_SearchResult doc md sim coll ty sec rng rel = Inr r \<Longrightarrow>
   content r = doc \<and> similarity_score r = sim \<and> metadata r = md \<and> relevance_score r = rel"
  by (auto simp: make_SearchResult_def split: if_splits)

lemma process_neighbor_Some:
  assumes "process_neighbor raw coll ms ctx i = Inr (Some r)"
  shows "ms \<le> similarity_score r \<and> from_neighbor raw r i"
  using assms
  unfolding process_neighbor_def from_neighbor_def py_index_def Let_def
  by (auto split: sum.splits if_splits dest!: make_SearchResult_fields simp: hd_conv_nth)

lemma process_loop_from_neighbor:
  "process_loop raw coll ms ctx idxs acc = Inr rs \<Longrightarrow>
   \<forall>r \<in> set acc. ms \<le> similarity_score r \<and> (\<exists>i. from_neighbor raw r i) \<Longrightarrow>
   \<forall>r \<in> set rs. ms \<le> similarity_score r \<and> (\<exists>i. from_neighbor raw r i)"
proof (induction idxs arbitrary: acc)
  case Nil
  then show ?case by simp
next
  case (Cons i idxs)
  show ?case
  proof (cases "process_neighbor raw coll ms ctx i")
    case (Inl e)
    with Cons.prems show ?thesis by simp
  next
    case (Inr res)
    show ?thesis
    proof (cases res)
      case None
      with Cons.prems(1) Inr have "process_loop raw coll ms ctx idxs acc = Inr rs" by simp
      then show ?thesis using Cons.prems(2) by (rule Cons.IH)
    next
      case (Some r)
      with Inr have "ms \<le> similarity_score r \<and> from_neighbor raw r i"
        by (simp add: process_neighbor_Some)
      with Cons.prems(2)
      have "\<forall>x \<in> set (acc @ [r]). ms \<le> similarity_score x \<and> (\<exists>i. from_neighbor raw x i)"
        by auto
      moreover from Cons.prems(1) Inr Some
      have "process_loop raw coll ms ctx idxs (acc @ [r]) = Inr rs" by simp
      ultimately show ?thesis by (rule Cons.IH [rotated])
    qed
  qed
qed

lemma set_py_slice_to: "set (py_slice_to xs n) \<subseteq> set xs"
  by (auto simp: py_slice_to_def dest: in_set_takeD)

lemma process_search_results_from_neighbor:
  assumes "process_search_results raw coll ms ctx limit = Inr rs" and "r \<in> set rs"
  shows "ms \<le> similarity_score r \<and> (\<exists>i. from_neighbor raw r i)"
proof (cases "documents raw = [] \<or> hd (documents raw) = []")
  case True
  with assms show ?thesis by (simp add: process_search_results_def)
next
  case False
  with assms(1) obtain ps where
    ps: "process_loop raw coll ms ctx [0 ..< length (hd (documents raw))] [] = Inr ps"
    and rs: "rs = py_slice_to (sort_key (\<lambda>r. - result_sort_key r) ps) limit"
    by (auto simp: process_search_results_def split: sum.splits)
  from ps have "\<forall>x \<in> set ps. ms \<le> similarity_score x \<and> (\<exists>i. from_neighbor raw x i)"
    by (rule process_loop_from_neighbor) simp
  moreover have "r \<in> set ps"
  proof -
    from rs assms(2) have "r \<in> set (sort_key (\<lambda>r. - result_sort_key r) ps)"
      using set_py_slice_to [of "sort_key (\<lambda>r. - result_sort_key r) ps" limit] by blast
    then show ?thesis by simp
  qed
  ultimately show ?thesis by blast
qed

lemma three_neighbors_results:
  "process_search_results three_neighbors ''history'' (1/2) None 5 =
     Inr [\<lparr>content = ''a'', metadata = [], similarity_score = 9 / 10, collection = ''history'',
           result_ao_type = PyNone, result_sector = PyNone, amount_range = PyNone,
           relevance_score = Some (9 / 10)\<rparr>,
          \<lparr>content = ''b'', metadata = [], similarity_score = 7 / 10, collection = ''history'',
           result_ao_type = PyNone, result_sector = PyNone, amount_range = PyNone,
           relevance_score = Some (7 / 10)\<rparr>]"
  by (simp add: process_search_results_def three_neighbors_def process_neighbor_def py_index_def
      distance_to_similarity_def calculate_contextual_relevance_def make_SearchResult_def
      upt_conv_Cons result_sort_key_def py_slice_to_def dict_get_def Let_def)

text \<open>
  Claim C6. The similarity of a neighbour is \<open>max(0, 1 - distance)\<close>: distance 0 gives
  similarity 1, a distance of at least 1 gives similarity 0, and no similarity is
  negative. When \<open>_process_search_results\<close> returns a list, every result in it stems
  from a retrieved neighbour, has that neighbour's similarity, and is not below the
  similarity floor: a neighbour strictly below the floor is in no result list.
\<close>

theorem score_and_filter:
  "distance_to_similarity d = max 0 (1 - d)
   \<and> distance_to_similarity 0 = 1
   \<and> (1 \<le> d \<longrightarrow> distance_to_similarity d = 0)
   \<and> 0 \<le> distance_to_similarity d
   \<and> (process_search_results raw coll ms ctx limit = Inr rs \<longrightarrow>
        (\<forall>r \<in> set rs. ms \<le> similarity_score r \<and>
           (\<exists>i < length (hd (documents raw)).
              distances raw \<noteq> [] \<and> i < length (hd (distances raw)) \<and>
              content r = hd (documents raw) ! i \<and>
              similarity_score r = distance_to_similarity (hd (distances raw) ! i))))"
  using process_search_results_from_neighbor [of raw coll ms ctx limit rs]
  by (auto simp: distance_to_similarity_def from_neighbor_def)

theorem score_and_filter_witness:
  "(\<exists>rs. process_search_results three_neighbors ''history'' (1/2) None 5 = Inr rs
      \<and> length rs = 2
      \<and> (1/2 :: real) \<le> similarity_score (rs ! 0) \<and> (1/2 :: real) \<le> similarity_score (rs ! 1)
      \<and> similarity_score (rs ! 1) = distance_to_similarity (3/10))
   \<and> distance_to_similarity (3/2) = 0"
  using score_and_filter [of "3/2" three_neighbors "''history''" "1/2" None 5]
    three_neighbors_results
  by (simp add: distance_to_similarity_def)

section \<open>Verification: contextual relevance\<close>














section \<open>Verification: search\<close>

lemma py_strip_empty_iff: "py_strip s = [] \<longleftrightarrow> list_all py_isspace s"
proof
  assume "py_strip s = []"
  then have a: "\<forall>c\<in>set (dropWhile py_isspace s). py_isspace c"
    by (simp add: py_strip_def)
  show "list_all py_isspace s"
  proof (cases "dropWhile py_isspace s")
    case Nil
    then show ?thesis by (simp add: list_all_iff)
  next
    case (Cons c cs)
    then have "\<not> py_isspace c" by (metis hd_dropWhile list.sel(1) list.distinct(1))
    with a Cons show ?thesis by simp
  qed
next
  assume "list_all py_isspace s"
  then show "py_strip s = []"
    by (auto simp: py_strip_def list_all_iff dest: set_dropWhileD)
qed

lemma search_validation_cases:
  "search_validation query limit ms =
     (if list_all py_isspace query then Some (ValidationError ''query'' (PyStr query))
      else if limit < 1 \<or> 100 < limit then Some (ValidationError ''limit'' (PyInt limit))
      else if ms < 0 \<or> 1 < ms then Some (ValidationError ''min_similarity_score'' (PyFloat ms))
      else None)"
  by (auto simp add: search_validation_def py_strip_empty_iff)


text \<open>
  Claim C8. A call of \<open>search\<close> with an empty or whitespace-only query, a limit outside
  \<open>[1, 100]\<close> or a similarity floor outside \<open>[0.0, 1.0]\<close> raises a
  \<open>ValidationError\<close> that carries the name and the value of the offending parameter (the
  first one in the order query, limit, floor), whatever the collaborators would do, and
  leaves the engine and the outside world as they were. The bounds 1, 100, 0.0 and 1.0
  pass the checks.
\<close>

theorem search_input_validation:
  "(list_all py_isspace query \<longrightarrow>
      search co d query coll limit ctx fs ms eng
        = (Inl (ValidationError ''query'' (PyStr query)), eng))
   \<and> (\<not> list_all py_isspace query \<and> (limit < 1 \<or> 100 < limit) \<longrightarrow>
      search co d query coll limit ctx fs ms eng
        = (Inl (ValidationError ''limit'' (PyInt limit)), eng))
   \<and> (\<not> list_all py_isspace query \<and> 1 \<le> limit \<and> limit \<le> 100 \<and> (ms < 0 \<or> 1 < ms) \<longrightarrow>
      search co d query coll limit ctx fs ms eng
        = (Inl (ValidationError ''min_similarity_score'' (PyFloat ms)), eng))
   \<and> (\<not> list_all py_isspace query \<and> (limit = 1 \<or> limit = 100) \<and> (ms = 0 \<or> ms = 1) \<longrightarrow>
      search_validation query limit ms = None)"
  by (auto simp add: search_def search_validation_cases)

theorem search_input_validation_witness:
  "search idle_collaborators 0 '' '' ''historique_ao'' 5 None None (1/2) fresh_engine
     = (Inl (ValidationError ''query'' (PyStr '' '')), fresh_engine)
   \<and> search idle_collaborators 0 ''test'' ''historique_ao'' 101 None None (1/2) fresh_engine
     = (Inl (ValidationError ''limit'' (PyInt 101)), fresh_engine)
   \<and> search idle_collaborators 0 ''test'' ''historique_ao'' 5 None None (101/100) fresh_engine
     = (Inl (ValidationError ''min_similarity_score'' (PyFloat (101/100))), fresh_engine)
   \<and> search_validation ''test'' 100 1 = None"
  using search_input_validation [of "'' ''" idle_collaborators 0 "''historique_ao''" 5 None None
      "1/2" fresh_engine]
    search_input_validation [of "''test''" idle_collaborators 0 "''historique_ao''" 101 None None
      "1/2" fresh_engine]
    search_input_validation [of "''test''" idle_collaborators 0 "''historique_ao''" 5 None None
      "101/100" fresh_engine]
    search_input_validation [of "''test''" idle_collaborators 0 "''historique_ao''" 100 None None
      1 fresh_engine]
  by (simp add: py_isspace_def)




section \<open>Verification: the embedding cache\<close>







lemma get_ttl:
  "ttl_hours (snd (EmbeddingCache_get L now txt model c)) = ttl_hours c"
  by (auto simp: EmbeddingCache_get_def get_body_def is_cache_entry_valid_def
      Let_def split: option.splits pyval.splits)









lemma cache_entry_valid:
  "v \<noteq> [] \<Longrightarrow> list_all is_number v \<Longrightarrow>
   validate_cache_data L (cache_entry L now txt model v) txt model"
  by (simp add: validate_cache_data_def cache_entry_def dict_get_def)

lemma delete_as_filter: "AList.delete p fs = filter (\<lambda>(q, f). q \<noteq> p) fs"
  by (auto simp: AList.delete_eq intro: filter_cong)

lemma evict_loop_other_fields:
  "max_cache_size_mb (evict_loop xs cur t c) = max_cache_size_mb c"
  by (induction xs cur t c rule: evict_loop.induct) auto

lemma evict_loop_prefix:
  "\<exists>k \<le> length xs.
      files (evict_loop xs cur t c)
        = filter (\<lambda>(q, f). q \<notin> fst ` set (take k xs)) (files c)
      \<and> (k < length xs \<longrightarrow>
            cur - real (sum_list (map (\<lambda>(p, m, s). s) (take k xs))) / 1024 / 1024 \<le> t)
      \<and> (\<forall>j < k. \<not> cur - real (sum_list (map (\<lambda>(p, m, s). s) (take j xs))) / 1024 / 1024 \<le> t)"
proof (induction xs cur t c rule: evict_loop.induct)
  case (1 cur t c)
  then show ?case by simp
next
  case (2 p m s rest cur t c)
  show ?case
  proof (cases "cur \<le> t")
    case True
    then have "files (evict_loop ((p, m, s) # rest) cur t c)
          = filter (\<lambda>(q, f). q \<notin> fst ` set (take 0 ((p, m, s) # rest))) (files c)
        \<and> (0 < length ((p, m, s) # rest) \<longrightarrow>
              cur - real (sum_list (map (\<lambda>(p, m, s). s) (take 0 ((p, m, s) # rest)))) / 1024 / 1024
                \<le> t)
        \<and> (\<forall>j < (0::nat). \<not> cur - real (sum_list (map (\<lambda>(p, m, s). s)
               (take j ((p, m, s) # rest)))) / 1024 / 1024 \<le> t)"
      by simp
    then show ?thesis by blast
  next
    case False
    let ?c = "c \<lparr> files := AList.delete p (files c) \<rparr>"
    let ?cur = "cur - real s / 1024 / 1024"
    from 2 [OF False] obtain k where k: "k \<le> length rest"
      and fs: "files (evict_loop rest ?cur t ?c)
                 = filter (\<lambda>(q, f). q \<notin> fst ` set (take k rest)) (files ?c)"
      and le: "k < length rest \<longrightarrow>
                 ?cur - real (sum_list (map (\<lambda>(p, m, s). s) (take k rest))) / 1024 / 1024 \<le> t"
      and gt: "\<forall>j < k. \<not> ?cur - real (sum_list (map (\<lambda>(p, m, s). s) (take j rest))) / 1024 / 1024
                 \<le> t"
      by blast
    have a: "files (evict_loop ((p, m, s) # rest) cur t c)
               = filter (\<lambda>(q, f). q \<notin> fst ` set (take (Suc k) ((p, m, s) # rest))) (files c)"
      using False fs by (auto simp: delete_as_filter intro: filter_cong)
    have b: "Suc k < length ((p, m, s) # rest) \<longrightarrow>
               cur - real (sum_list (map (\<lambda>(p, m, s). s) (take (Suc k) ((p, m, s) # rest))))
                 / 1024 / 1024 \<le> t"
      using le by (simp add: add_divide_distrib algebra_simps)
    have c: "\<not> cur - real (sum_list (map (\<lambda>(p, m, s). s) (take j ((p, m, s) # rest))))
                 / 1024 / 1024 \<le> t" if "j < Suc k" for j
    proof (cases j)
      case 0
      with False show ?thesis by simp
    next
      case (Suc j')
      with that gt have "\<not> ?cur - real (sum_list (map (\<lambda>(p, m, s). s) (take j' rest)))
          / 1024 / 1024 \<le> t" by simp
      with Suc show ?thesis by (simp add: add_divide_distrib algebra_simps)
    qed
    from k a b c show ?thesis
      by (intro exI [of _ "Suc k"]) simp
  qed
qed


lemma sum_list_mset_cong:
  "mset xs = mset ys \<Longrightarrow> sum_list (map g xs) = (sum_list (map g ys) :: nat)"
proof -
  assume "mset xs = mset ys"
  then have "mset (map g xs) = mset (map g ys)" by simp
  then have "sum_mset (mset (map g xs)) = sum_mset (mset (map g ys))" by simp
  then show ?thesis by (simp only: sum_mset_sum_list)
qed

lemma sorted_files_distinct:
  assumes "distinct (map fst fs)"
    and "mset xs = mset (map (\<lambda>(p, f). (p, st_mtime f, st_size f)) fs)"
  shows "distinct (map fst xs)"
proof -
  have "mset (map fst xs) = image_mset fst (mset xs)" by simp
  also have "\<dots> = image_mset fst (mset (map (\<lambda>(p, f). (p, st_mtime f, st_size f)) fs))"
    by (simp only: assms(2))
  also have "\<dots> = mset (map fst fs)"
    by (simp add: image_mset.compositionality comp_def case_prod_unfold)
  finally have "mset (map fst xs) = mset (map fst fs)" .
  with assms(1) show ?thesis using mset_eq_imp_distinct_iff by blast
qed

lemma filter_prefix_names:
  assumes "distinct (map fst xs)"
  shows "filter (\<lambda>(q, m, s). q \<notin> fst ` set (take k xs)) xs = drop k xs"
proof -
  have "distinct (map fst (take k xs) @ map fst (drop k xs))"
    using assms by (simp only: map_append [symmetric] append_take_drop_id)
  then have disj: "fst ` set (take k xs) \<inter> fst ` set (drop k xs) = {}"
    by (simp only: distinct_append set_map)
  have 1: "filter (\<lambda>x. fst x \<notin> fst ` set (take k xs)) (take k xs) = []"
    by (simp add: filter_empty_conv)
  have "fst x \<notin> fst ` set (take k xs)" if "x \<in> set (drop k xs)" for x
  proof -
    from that have "fst x \<in> fst ` set (drop k xs)" by (rule imageI)
    with disj show ?thesis by blast
  qed
  then have 2: "filter (\<lambda>x. fst x \<notin> fst ` set (take k xs)) (drop k xs) = drop k xs"
    by (simp add: filter_id_conv)
  have "filter (\<lambda>x. fst x \<notin> fst ` set (take k xs)) (take k xs @ drop k xs) = drop k xs"
    by (simp only: filter_append 1 2 append_Nil)
  then show ?thesis by (simp add: case_prod_unfold)
qed

lemma remaining_bytes:
  assumes "distinct (map fst fs)"
    and "mset xs = mset (map (\<lambda>(p, f). (p, st_mtime f, st_size f)) fs)"
  shows "sum_list (map (\<lambda>(p, f). st_size f)
            (filter (\<lambda>(q, f). q \<notin> fst ` set (take k xs)) fs))
         = sum_list (map (\<lambda>(p, m, s). s) (drop k xs))"
proof -
  let ?triple = "\<lambda>(p, f). (p, st_mtime f, st_size f)"
  let ?Q = "\<lambda>(q, m, s). q \<notin> fst ` set (take k xs)"
  let ?P = "\<lambda>(q, f). q \<notin> fst ` set (take k xs)"
  have "map ?triple (filter ?P fs) = filter ?Q (map ?triple fs)"
    by (induction fs) auto
  then have "mset (map ?triple (filter ?P fs)) = filter_mset ?Q (mset (map ?triple fs))"
    by (simp only: mset_filter)
  also have "\<dots> = filter_mset ?Q (mset xs)" by (simp only: assms(2))
  also have "\<dots> = mset (filter ?Q xs)" by (simp only: mset_filter)
  also have "\<dots> = mset (drop k xs)"
    using filter_prefix_names [OF sorted_files_distinct [OF assms]] by simp
  finally have "sum_list (map (\<lambda>(p, m, s). s) (map ?triple (filter ?P fs)))
      = sum_list (map (\<lambda>(p, m, s). s) (drop k xs))"
    by (rule sum_list_mset_cong)
  moreover have "map (\<lambda>(p, m, s). s) (map ?triple (filter ?P fs))
      = map (\<lambda>(p, f). st_size f) (filter ?P fs)"
    by (simp add: case_prod_unfold)
  ultimately show ?thesis by (simp only:)
qed


lemma split_bytes:
  fixes g :: "'a \<Rightarrow> nat"
  shows "real (sum_list (map g xs)) / 1024 / 1024
           - real (sum_list (map g (take k xs))) / 1024 / 1024
         = real (sum_list (map g (drop k xs))) / 1024 / 1024"
proof -
  have "sum_list (map g (take k xs @ drop k xs))
          = sum_list (map g (take k xs)) + sum_list (map g (drop k xs))"
    by (simp only: map_append sum_list_append)
  then have "sum_list (map g xs) = sum_list (map g (take k xs)) + sum_list (map g (drop k xs))"
    by (simp only: append_take_drop_id)
  then show ?thesis by (simp add: add_divide_distrib)
qed

lemma sorted_prefix_older:
  assumes "sorted (map h xs)" and "a \<in> set (take k xs)" and "b \<in> set (drop k xs)"
  shows "h a \<le> h b"
proof -
  have "sorted (map h (take k xs) @ map h (drop k xs))"
    using assms(1) by (simp only: map_append [symmetric] append_take_drop_id)
  then have "\<forall>x \<in> set (map h (take k xs)). \<forall>y \<in> set (map h (drop k xs)). x \<le> y"
    by (simp only: sorted_append) simp
  with assms(2,3) show ?thesis by simp
qed

text \<open>What the eviction pass does, in terms of the files sorted by age.\<close>

lemma cleanup_oldest_entries_prefix:
  assumes "distinct (map fst (files c))"
  defines "xs \<equiv> sort_key (\<lambda>(p, mtime, sz). mtime)
                   (map (\<lambda>(p, f). (p, st_mtime f, st_size f)) (files c))"
  shows "\<exists>k \<le> length xs.
           files (cleanup_oldest_entries t c)
             = filter (\<lambda>(q, f). q \<notin> fst ` set (take k xs)) (files c)
           \<and> get_cache_size_mb (cleanup_oldest_entries t c)
               = real (sum_list (map (\<lambda>(p, m, s). s) (drop k xs))) / 1024 / 1024
           \<and> (k < length xs \<longrightarrow>
                 real (sum_list (map (\<lambda>(p, m, s). s) (drop k xs))) / 1024 / 1024 \<le> t)
           \<and> (\<forall>j < k. t < real (sum_list (map (\<lambda>(p, m, s). s) (drop j xs))) / 1024 / 1024)"
proof -
  let ?cur = "real (sum_list (map (\<lambda>(p, m, s). s) xs)) / 1024 / 1024"
  have run: "cleanup_oldest_entries t c = evict_loop xs ?cur t c"
    by (simp add: cleanup_oldest_entries_def xs_def Let_def)
  have ms: "mset xs = mset (map (\<lambda>(p, f). (p, st_mtime f, st_size f)) (files c))"
    by (simp add: xs_def)
  from evict_loop_prefix [of xs ?cur t c] obtain k where k: "k \<le> length xs"
    and fs: "files (evict_loop xs ?cur t c)
               = filter (\<lambda>(q, f). q \<notin> fst ` set (take k xs)) (files c)"
    and le: "k < length xs \<longrightarrow>
               ?cur - real (sum_list (map (\<lambda>(p, m, s). s) (take k xs))) / 1024 / 1024 \<le> t"
    and gt: "\<forall>j < k. \<not> ?cur - real (sum_list (map (\<lambda>(p, m, s). s) (take j xs))) / 1024 / 1024
               \<le> t"
    by blast
  have size: "get_cache_size_mb (cleanup_oldest_entries t c)
      = real (sum_list (map (\<lambda>(p, m, s). s) (drop k xs))) / 1024 / 1024"
    unfolding get_cache_size_mb_def run fs
    by (simp only: remaining_bytes [OF assms(1) ms])
  from le have le': "k < length xs \<longrightarrow>
      real (sum_list (map (\<lambda>(p, m, s). s) (drop k xs))) / 1024 / 1024 \<le> t"
    by (simp only: split_bytes)
  from gt have gt': "\<forall>j < k. t < real (sum_list (map (\<lambda>(p, m, s). s) (drop j xs))) / 1024 / 1024"
    by (simp only: split_bytes not_le)
  from k fs size le' gt' show ?thesis
    unfolding run by blast
qed


lemma deleted_in_prefix:
  assumes "distinct (map fst fs)"
    and "set xs = (\<lambda>(p, f). (p, st_mtime f, st_size f)) ` set fs"
    and "(p, f) \<in> set fs" and "p \<in> fst ` set (take k xs)"
  shows "(p, st_mtime f, st_size f) \<in> set (take k xs)"
proof -
  from assms(4) obtain x where x: "x \<in> set (take k xs)" "fst x = p" by auto
  then have "x \<in> set xs" by (auto dest: in_set_takeD)
  with assms(2) obtain p' f' where pf: "(p', f') \<in> set fs" "x = (p', st_mtime f', st_size f')"
    by auto
  with x(2) have "p' = p" by simp
  with pf(1) assms(1,3) have "f' = f" by (auto dest: eq_key_imp_eq_value)
  with pf(2) \<open>p' = p\<close> x(1) show ?thesis by simp
qed

lemma retained_in_suffix:
  assumes "set xs = (\<lambda>(p, f). (p, st_mtime f, st_size f)) ` set fs"
    and "(q, g) \<in> set fs" and "q \<notin> fst ` set (take k xs)"
  shows "(q, st_mtime g, st_size g) \<in> set (drop k xs)"
proof -
  from assms(1,2) have "(q, st_mtime g, st_size g) \<in> set xs" by force
  moreover have "set xs = set (take k xs) \<union> set (drop k xs)"
    by (metis append_take_drop_id set_append)
  moreover have "(q, st_mtime g, st_size g) \<notin> set (take k xs)"
    using assms(3) by force
  ultimately show ?thesis by blast
qed

lemma cleanup_oldest_entries_spec:
  assumes d: "distinct (map fst (files c))" and t: "0 \<le> t"
  defines "c' \<equiv> cleanup_oldest_entries t c"
  shows "get_cache_size_mb c' \<le> t
     \<and> set (files c') \<subseteq> set (files c)
     \<and> (\<forall>(p, f) \<in> set (files c) - set (files c'). \<forall>(q, g) \<in> set (files c').
           st_mtime f \<le> st_mtime g)
     \<and> (files c' \<noteq> files c \<longrightarrow>
           (\<exists>(p, f) \<in> set (files c) - set (files c').
              t < get_cache_size_mb c' + real (st_size f) / 1024 / 1024))"
proof -
  define xs where "xs = sort_key (\<lambda>(p, mtime, sz). mtime)
                   (map (\<lambda>(p, f). (p, st_mtime f, st_size f)) (files c))"
  have sx: "set xs = (\<lambda>(p, f). (p, st_mtime f, st_size f)) ` set (files c)"
    by (simp add: xs_def)
  have so: "sorted (map (\<lambda>(p, mtime, sz). mtime) xs)"
    by (simp add: xs_def)
  from cleanup_oldest_entries_prefix [OF d, of t, folded xs_def c'_def]
  obtain k where k: "k \<le> length xs"
    and fs: "files c' = filter (\<lambda>(q, f). q \<notin> fst ` set (take k xs)) (files c)"
    and size: "get_cache_size_mb c'
                 = real (sum_list (map (\<lambda>(p, m, s). s) (drop k xs))) / 1024 / 1024"
    and le: "k < length xs \<longrightarrow>
               real (sum_list (map (\<lambda>(p, m, s). s) (drop k xs))) / 1024 / 1024 \<le> t"
    and gt: "\<forall>j < k. t < real (sum_list (map (\<lambda>(p, m, s). s) (drop j xs))) / 1024 / 1024"
    by blast
  have 1: "get_cache_size_mb c' \<le> t"
  proof (cases "k < length xs")
    case True
    with le size show ?thesis by simp
  next
    case False
    with k have "drop k xs = []" by simp
    with size t show ?thesis by simp
  qed
  have 2: "set (files c') \<subseteq> set (files c)"
    unfolding fs by auto
  have 3: "st_mtime f \<le> st_mtime g"
    if "(p, f) \<in> set (files c) - set (files c')" and "(q, g) \<in> set (files c')" for p f q g
  proof -
    from that(1) have pf: "(p, f) \<in> set (files c)" "p \<in> fst ` set (take k xs)"
      unfolding fs by auto
    from that(2) have qg: "(q, g) \<in> set (files c)" "q \<notin> fst ` set (take k xs)"
      unfolding fs by auto
    have a: "(p, st_mtime f, st_size f) \<in> set (take k xs)"
      using d sx pf by (rule deleted_in_prefix)
    have b: "(q, st_mtime g, st_size g) \<in> set (drop k xs)"
      using sx qg by (rule retained_in_suffix)
    from sorted_prefix_older [OF so a b] show ?thesis by simp
  qed
  have 4: "\<exists>(p, f) \<in> set (files c) - set (files c').
              t < get_cache_size_mb c' + real (st_size f) / 1024 / 1024"
    if "files c' \<noteq> files c"
  proof -
    have "k \<noteq> 0"
    proof
      assume "k = 0"
      with fs have "files c' = files c" by simp
      with that show False by simp
    qed
    then obtain j where j: "k = Suc j" by (cases k) auto
    with k have jl: "j < length xs" by simp
    obtain p m s where x: "xs ! j = (p, m, s)" by (cases "xs ! j") auto
    have dj: "drop j xs = (p, m, s) # drop k xs"
      using jl x j by (simp add: Cons_nth_drop_Suc [symmetric])
    from gt j have "t < real (sum_list (map (\<lambda>(p, m, s). s) (drop j xs))) / 1024 / 1024"
      by simp
    then have big: "t < get_cache_size_mb c' + real s / 1024 / 1024"
      unfolding dj size by (simp add: add_divide_distrib)
    have "(p, m, s) \<in> set (take k xs)"
      using jl x j by (metis in_set_conv_nth length_take lessI min.absorb2 nth_take k)
    then have pin: "p \<in> fst ` set (take k xs)" by force
    from jl x have "(p, m, s) \<in> set xs" by (metis nth_mem)
    with sx obtain f where f: "(p, f) \<in> set (files c)" "m = st_mtime f" "s = st_size f"
      by auto
    from f(1) pin have "(p, f) \<in> set (files c) - set (files c')"
      unfolding fs by auto
    with big f(3) show ?thesis by blast
  qed
  from 1 2 3 4 show ?thesis by blast
qed

lemma cleanup_if_needed_within:
  "get_cache_size_mb c \<le> real_of_int (max_cache_size_mb c) \<Longrightarrow>
   files (cleanup_if_needed c) = files c"
  by (simp add: cleanup_if_needed_def Let_def)


lemma set_result:
  "fst (EmbeddingCache_set L fault now txt model v c)
     = (if fault \<noteq> Some MkdirFails
           \<and> 10 * 1024 * 1024 < pickle_size L DEFAULT_PROTOCOL (PyList v)
        then Inl (CacheError ''CACHE_SIZE_LIMIT_EXCEEDED'')
        else Inr ())"
  by (simp add: EmbeddingCache_set_def set_body_def Let_def)

lemma set_state:
  assumes "pickle_size L DEFAULT_PROTOCOL (PyList v) \<le> 10 * 1024 * 1024"
  shows "EmbeddingCache_set L None now txt model v c
           = (Inr (), cleanup_if_needed (write_entry L now txt model v c))"
  using assms by (simp add: EmbeddingCache_set_def set_body_def Let_def)


text \<open>Evaluation of the concrete runs, step by step.\<close>

lemma demo_entry_path_hello: "entry_path demo_lib ''hello'' ''m'' = ''he/hello|m.pkl''"
  by (simp add: entry_path_def get_cache_file_path_def get_cache_key_def demo_lib_def
      py_split_def py_isspace_def)

lemma demo_pickle_list: "pickle_size demo_lib p (PyList xs) = 9 * length xs + 20"
  by (simp add: demo_lib_def)

lemma demo_pickle_entry:
  "pickle_size demo_lib p (cache_entry L now txt model v) = 9 * length v + 200"
  by (simp add: demo_lib_def cache_entry_def dict_get_def)










text \<open>
  Claim C3, as stated, fails: when creating the entry's directory fails, \<open>set\<close> returns
  normally although the serialized size of the vector (1200000 numbers, more than
  10 MiB) exceeds the per-entry ceiling; the size is never looked at.
\<close>

theorem set_mkdir_failure_counterexample:
  "10 * 1024 * 1024
     < pickle_size demo_lib DEFAULT_PROTOCOL (PyList (replicate 1200000 (PyFloat 1)))
   \<and> fst (EmbeddingCache_set demo_lib (Some MkdirFails) 0 ''hello'' ''m''
            (replicate 1200000 (PyFloat 1)) empty_cache) = Inr ()"
  by (simp add: set_result demo_pickle_list)

text \<open>
  Claim C3, amended. \<open>set\<close> raises the capacity error exactly when creating the entry's
  directory did not fail and the serialized size of the embedding exceeds the per-entry
  ceiling of 10 MiB; it propagates no other error: a failure of \<open>mkdir\<close>, of \<open>open\<close>
  or of the dump is absorbed and \<open>set\<close> returns normally.
\<close>

theorem set_raises_only_capacity_error:
  "fst (EmbeddingCache_set L fault now txt model v c)
     = (if fault \<noteq> Some MkdirFails
           \<and> 10 * 1024 * 1024 < pickle_size L DEFAULT_PROTOCOL (PyList v)
        then Inl (CacheError ''CACHE_SIZE_LIMIT_EXCEEDED'')
        else Inr ())"
  by (rule set_result)

theorem set_raises_only_capacity_error_witness:
  "fst (EmbeddingCache_set demo_lib None 0 ''hello'' ''m'' (replicate 1200000 (PyFloat 1))
          empty_cache) = Inl (CacheError ''CACHE_SIZE_LIMIT_EXCEEDED'')
   \<and> fst (EmbeddingCache_set demo_lib (Some DumpFails) 0 ''hello'' ''m''
            [PyFloat 1, PyFloat 2, PyFloat 3] empty_cache) = Inr ()"
  using set_raises_only_capacity_error [of demo_lib None 0 "''hello''" "''m''"
      "replicate 1200000 (PyFloat 1)" empty_cache]
    set_raises_only_capacity_error [of demo_lib "Some DumpFails" 0 "''hello''" "''m''"
      "[PyFloat 1, PyFloat 2, PyFloat 3]" empty_cache]
  by (simp add: demo_pickle_list)



lemma cleanup_if_needed_spec:
  assumes d: "distinct (map fst (files c))" and m: "0 \<le> max_cache_size_mb c"
  defines "c' \<equiv> cleanup_if_needed c"
  shows "(get_cache_size_mb c \<le> real_of_int (max_cache_size_mb c) \<longrightarrow> files c' = files c)
     \<and> (real_of_int (max_cache_size_mb c) < get_cache_size_mb c \<longrightarrow>
           get_cache_size_mb c' \<le> real_of_int (max_cache_size_mb c) * 0.8)
     \<and> set (files c') \<subseteq> set (files c)
     \<and> (\<forall>(p, f) \<in> set (files c) - set (files c'). \<forall>(q, g) \<in> set (files c').
           st_mtime f \<le> st_mtime g)
     \<and> (files c' \<noteq> files c \<longrightarrow>
           (\<exists>(p, f) \<in> set (files c) - set (files c').
              real_of_int (max_cache_size_mb c) * 0.8
                < get_cache_size_mb c' + real (st_size f) / 1024 / 1024))"
proof (cases "real_of_int (max_cache_size_mb c) < get_cache_size_mb c")
  case False
  then have "files c' = files c"
    by (simp add: c'_def cleanup_if_needed_within)
  with False show ?thesis by simp
next
  case True
  let ?c1 = "c \<lparr> cstats := (cstats c) \<lparr> cache_size_mb := get_cache_size_mb c \<rparr> \<rparr>"
  let ?t = "real_of_int (max_cache_size_mb c) * 0.8"
  have run: "c' = cleanup_oldest_entries ?t ?c1"
    using True by (simp add: c'_def cleanup_if_needed_def Let_def)
  have d1: "distinct (map fst (files ?c1))" using d by simp
  have t: "0 \<le> ?t" using m by simp
  from cleanup_oldest_entries_spec [OF d1 t, folded run] True
  show ?thesis by simp
qed

text \<open>
  Claim C4. Let \<open>set\<close> write an entry (within the size ceiling, with no I/O failure) into
  a cache whose files have distinct paths and whose configured maximum is not negative.
  If the total size after the write does not exceed the maximum, no file is deleted. If
  it does, the total size after \<open>set\<close> is at most 80 percent of the maximum. The files
  left are files that were there, every deleted file is at least as old (by its
  modification time, the time it was written) as every file left, and the pass stops as
  soon as the target is met: putting back one of the deleted files would exceed it.
\<close>

theorem capacity_eviction:
  assumes "distinct (map fst (files c))" and "0 \<le> max_cache_size_mb c"
    and "pickle_size L DEFAULT_PROTOCOL (PyList v) \<le> 10 * 1024 * 1024"
    and "w = write_entry L now txt model v c"
    and "c' = snd (EmbeddingCache_set L None now txt model v c)"
  shows "(get_cache_size_mb w \<le> real_of_int (max_cache_size_mb c) \<longrightarrow> files c' = files w)
     \<and> (real_of_int (max_cache_size_mb c) < get_cache_size_mb w \<longrightarrow>
           get_cache_size_mb c' \<le> real_of_int (max_cache_size_mb c) * 0.8)
     \<and> set (files c') \<subseteq> set (files w)
     \<and> (\<forall>(p, f) \<in> set (files w) - set (files c'). \<forall>(q, g) \<in> set (files c').
           st_mtime f \<le> st_mtime g)
     \<and> (files c' \<noteq> files w \<longrightarrow>
           (\<exists>(p, f) \<in> set (files w) - set (files c').
              real_of_int (max_cache_size_mb c) * 0.8
                < get_cache_size_mb c' + real (st_size f) / 1024 / 1024))"
proof -
  have c': "c' = cleanup_if_needed w"
    unfolding assms(4,5) set_state [OF assms(3)] by simp
  have dw: "distinct (map fst (files w))"
    unfolding assms(4) using assms(1) by (simp add: write_entry_def Let_def AList.distinct_update)
  have mw: "max_cache_size_mb w = max_cache_size_mb c"
    unfolding assms(4) by (simp add: write_entry_def Let_def)
  from assms(2) have "0 \<le> max_cache_size_mb w" by (simp only: mw)
  from cleanup_if_needed_spec [OF dw this, folded c', unfolded mw] show ?thesis .
qed

lemma full_cache_written:
  "files (write_entry demo_lib 3 ''hello'' ''m'' [PyFloat 1, PyFloat 2, PyFloat 3] full_cache)
     = [(''ol/older.pkl'', \<lparr> file_data = None, st_mtime = 1, st_size = 2097152 \<rparr>),
        (''yo/younger.pkl'', \<lparr> file_data = None, st_mtime = 2, st_size = 2097152 \<rparr>),
        (''he/hello|m.pkl'',
         \<lparr> file_data = Some (cache_entry demo_lib 3 ''hello'' ''m''
                               [PyFloat 1, PyFloat 2, PyFloat 3]),
           st_mtime = 3, st_size = 227 \<rparr>)]"
  using demo_entry_path_hello
  by (simp add: write_entry_def entry_path_def full_cache_def empty_cache_def Let_def
      demo_pickle_entry)

lemma full_cache_evicted:
  "files (snd (EmbeddingCache_set demo_lib None 3 ''hello'' ''m''
                 [PyFloat 1, PyFloat 2, PyFloat 3] full_cache))
     = [(''yo/younger.pkl'', \<lparr> file_data = None, st_mtime = 2, st_size = 2097152 \<rparr>),
        (''he/hello|m.pkl'',
         \<lparr> file_data = Some (cache_entry demo_lib 3 ''hello'' ''m''
                               [PyFloat 1, PyFloat 2, PyFloat 3]),
           st_mtime = 3, st_size = 227 \<rparr>)]"
proof -
  let ?v = "[PyFloat 1, PyFloat 2, PyFloat 3]"
  let ?w = "write_entry demo_lib 3 ''hello'' ''m'' ?v full_cache"
  have ok: "pickle_size demo_lib DEFAULT_PROTOCOL (PyList ?v) \<le> 10 * 1024 * 1024"
    by (simp add: demo_pickle_list)
  have mw: "max_cache_size_mb ?w = 4"
    by (simp add: write_entry_def Let_def full_cache_def empty_cache_def)
  have sw: "get_cache_size_mb ?w = 4194531 / 1048576"
    unfolding get_cache_size_mb_def full_cache_written by simp
  have "files (cleanup_if_needed ?w)
      = [(''yo/younger.pkl'', \<lparr> file_data = None, st_mtime = 2, st_size = 2097152 \<rparr>),
         (''he/hello|m.pkl'',
          \<lparr> file_data = Some (cache_entry demo_lib 3 ''hello'' ''m'' ?v),
            st_mtime = 3, st_size = 227 \<rparr>)]"
    unfolding cleanup_if_needed_def Let_def sw mw cleanup_oldest_entries_def
    by (simp add: full_cache_written AList.delete_eq)
  then show ?thesis
    unfolding set_state [OF ok] by simp
qed

theorem capacity_eviction_witness:
  "distinct (map fst (files full_cache)) \<and> 0 \<le> max_cache_size_mb full_cache
   \<and> real_of_int (max_cache_size_mb full_cache)
       < get_cache_size_mb (write_entry demo_lib 3 ''hello'' ''m''
           [PyFloat 1, PyFloat 2, PyFloat 3] full_cache)
   \<and> get_cache_size_mb (snd (EmbeddingCache_set demo_lib None 3 ''hello'' ''m''
                 [PyFloat 1, PyFloat 2, PyFloat 3] full_cache))
       \<le> real_of_int (max_cache_size_mb full_cache) * 0.8
   \<and> map fst (files (snd (EmbeddingCache_set demo_lib None 3 ''hello'' ''m''
                 [PyFloat 1, PyFloat 2, PyFloat 3] full_cache)))
       = [''yo/younger.pkl'', ''he/hello|m.pkl'']"
proof -
  let ?v = "[PyFloat 1, PyFloat 2, PyFloat 3]"
  have 1: "distinct (map fst (files full_cache))"
    by (simp add: full_cache_def empty_cache_def)
  have 2: "0 \<le> max_cache_size_mb full_cache"
    by (simp add: full_cache_def empty_cache_def)
  have 3: "pickle_size demo_lib DEFAULT_PROTOCOL (PyList ?v) \<le> 10 * 1024 * 1024"
    by (simp add: demo_pickle_list)
  have 4: "real_of_int (max_cache_size_mb full_cache)
       < get_cache_size_mb (write_entry demo_lib 3 ''hello'' ''m'' ?v full_cache)"
    unfolding get_cache_size_mb_def full_cache_written
    by (simp add: full_cache_def empty_cache_def)
  from capacity_eviction [OF 1 2 3 refl refl, of 3 "''hello''" "''m''"] 4
  have "get_cache_size_mb (snd (EmbeddingCache_set demo_lib None 3 ''hello'' ''m'' ?v full_cache))
       \<le> real_of_int (max_cache_size_mb full_cache) * 0.8"
    by blast
  with 1 2 4 show ?thesis
    by (simp add: full_cache_evicted)
qed

section \<open>Verification: the embedding service\<close>


lemma length_cache_answers [simp]: "length (cache_answers L now model ts c) = length ts"
  by (induction ts arbitrary: c) (auto split: prod.splits)




















end
